theory Spec2Isabelle
  imports Complex_Main "HOL-Library.Sublist"
begin

section \<open>JavaScript strings and values, as far as app.js uses them\<close>

text \<open>
  Strings are \<^typ>\<open>string\<close>. \<open>toLowerCase\<close> maps the letters A-Z and leaves every
  other character alone (the ASCII part of the JavaScript function); \<open>trim\<close> removes
  the ASCII white space characters from both ends.

  A string field that the code reads only through truthiness (\<open>x || y\<close>, \<open>if(x)\<close>) is
  modelled as a \<^typ>\<open>string\<close> in which \<open>''''\<close> also stands for an absent field:
  \<open>undefined\<close>, \<open>null\<close> and the empty string all take the same branch there.
\<close>

definition lower_char :: "char \<Rightarrow> char" where
  "lower_char c =
     (let n = (of_char c :: nat) in if 65 \<le> n \<and> n \<le> 90 then char_of (n + 32) else c)"

definition toLowerCase :: "string \<Rightarrow> string" where
  "toLowerCase s = map lower_char s"

definition is_space :: "char \<Rightarrow> bool" where
  "is_space c = ((of_char c :: nat) \<in> {9, 10, 11, 12, 13, 32})"

definition trim :: "string \<Rightarrow> string" where
  "trim s = rev (dropWhile is_space (rev (dropWhile is_space s)))"

text \<open>\<open>hay.includes(needle)\<close>: the needle occurs in the hay as a contiguous run.\<close>

fun str_includes :: "string \<Rightarrow> string \<Rightarrow> bool" where
  "str_includes [] needle = (needle = [])"
| "str_includes (c # cs) needle = (take (length needle) (c # cs) = needle \<or> str_includes cs needle)"

text \<open>\<open>xs.join(sep)\<close> on an array of strings.\<close>

fun join :: "string \<Rightarrow> string list \<Rightarrow> string" where
  "join sep [] = []"
| "join sep [x] = x"
| "join sep (x # y # ys) = x @ sep @ join sep (y # ys)"

text \<open>\<open>a || b\<close> on strings: the first operand unless it is empty.\<close>

definition or_else :: "string \<Rightarrow> string \<Rightarrow> string" where
  "or_else a b = (if a \<noteq> [] then a else b)"

section \<open>parsePayload\<close>

text \<open>
  \<open>JSON.parse\<close> is a built-in of the language and a parameter of the model. Its result
  is seen through what \<open>parsePayload\<close> does with it: the call throws (\<open>JNotJson\<close>),
  it returns \<open>null\<close>, whose property read throws inside the same \<open>try\<close> block
  (\<open>JNull\<close>), it returns a number, a string, a boolean or an array, where the six
  properties read are all \<open>undefined\<close> (\<open>JPrimitive\<close>), or it returns an object
  (\<open>JObj\<close>), seen through the six properties that are read.

  The value under \<open>drugName\<close>, \<open>name\<close> or \<open>productName\<close> may be of any JSON type.
  Line 170 takes the first truthy one of the three and calls \<open>toString\<close> on it, so a
  value is kept as what these two steps see of it: a string (truthy unless empty); a
  falsy value that is not a string (absent, \<open>null\<close>, \<open>false\<close>, \<open>0\<close>); or a truthy value
  that is not a string (a number, \<open>true\<close>, an array, an object) with the result of its
  \<open>toString\<close>: the empty string for the array \<open>[]\<close>, \<open>[object Object]\<close> for a plain
  object, and \<open>None\<close> when the call throws, as on an object with an own property
  \<open>toString\<close>. The values under \<open>batch\<close>, \<open>lot\<close> and \<open>expiry\<close> are strings, as the
  Candidate of the data model has them, empty for an absent one; values of other JSON
  types under these three keys are outside the model.
\<close>

datatype jvalue = Falsy | Str string | Truthy "string option"

record decoded_object =
  o_drugName :: jvalue
  o_name :: jvalue
  o_productName :: jvalue
  o_batch :: string
  o_lot :: string
  o_expiry :: string

datatype json = JNotJson | JNull | JPrimitive | JObj decoded_object

definition truthy :: "jvalue \<Rightarrow> bool" where
  "truthy v = (case v of Falsy \<Rightarrow> False | Str s \<Rightarrow> s \<noteq> [] | Truthy r \<Rightarrow> True)"

text \<open>\<open>a || b || c || ''\<close>: the first truthy operand, else the empty string.\<close>

fun first_truthy :: "jvalue list \<Rightarrow> jvalue" where
  "first_truthy [] = Str []"
| "first_truthy (v # vs) = (if truthy v then v else first_truthy vs)"

text \<open>\<open>v.toString()\<close> on the value chosen: \<open>None\<close> when the call throws.\<close>

definition toString :: "jvalue \<Rightarrow> string option" where
  "toString v = (case v of Falsy \<Rightarrow> Some [] | Str s \<Rightarrow> Some s | Truthy r \<Rightarrow> r)"

record candidate =
  c_name :: string
  c_batch :: string
  c_expiry :: string

definition strip_prefix :: "string \<Rightarrow> string \<Rightarrow> string option" where
  "strip_prefix p s = (if take (length p) s = p then Some (drop (length p) s) else None)"

definition is_digit :: "char \<Rightarrow> bool" where
  "is_digit c = (let n = (of_char c :: nat) in 48 \<le> n \<and> n \<le> 57)"

text \<open>The character class \<open>[A-Z0-9\-]\<close>.\<close>

definition gs1_char :: "char \<Rightarrow> bool" where
  "gs1_char c = (let n = (of_char c :: nat) in (65 \<le> n \<and> n \<le> 90) \<or> (48 \<le> n \<and> n \<le> 57) \<or> n = 45)"

text \<open>
  \<open>raw.match(/\(10\)([A-Z0-9\-]+?)(?=\(|$)/)\<close>, the captured group of the leftmost
  match. No character of the class is an opening parenthesis, so the lazy repetition can
  only stop where the run of class characters stops: the match at a position succeeds
  when the run is not empty and is followed by \<open>(\<close> or by the end of the input.
\<close>

fun match_m10 :: "string \<Rightarrow> string option" where
  "match_m10 [] = None"
| "match_m10 (c # cs) =
     (case strip_prefix ''(10)'' (c # cs) of
        None \<Rightarrow> match_m10 cs
      | Some rest \<Rightarrow>
          (let run = takeWhile gs1_char rest; after = dropWhile gs1_char rest
           in if run \<noteq> [] \<and> (after = [] \<or> hd after = CHR ''('') then Some run
              else match_m10 cs))"

text \<open>\<open>raw.match(/\(17\)(\d{6})/)\<close>, the captured group of the leftmost match.\<close>

fun match_m17 :: "string \<Rightarrow> string option" where
  "match_m17 [] = None"
| "match_m17 (c # cs) =
     (case strip_prefix ''(17)'' (c # cs) of
        None \<Rightarrow> match_m17 cs
      | Some rest \<Rightarrow>
          (if 6 \<le> length rest \<and> list_all is_digit (take 6 rest) then Some (take 6 rest)
           else match_m17 cs))"

text \<open>
  The first \<open>try\<close> block of \<open>parsePayload\<close>: the fields of \<open>out\<close> when the block is
  left, normally or by an exception. An exception (of \<open>JSON.parse\<close>, of the property
  read on \<open>null\<close>, of \<open>toString\<close>) is raised before the first assignment, so it leaves
  \<open>out\<close> as initialised.
\<close>

definition empty_candidate :: candidate where
  "empty_candidate = \<lparr>c_name = [], c_batch = [], c_expiry = []\<rparr>"

definition json_fields :: "json \<Rightarrow> candidate" where
  "json_fields j =
     (case j of
        JObj obj \<Rightarrow>
          (case toString (first_truthy [o_drugName obj, o_name obj, o_productName obj]) of
             None \<Rightarrow> empty_candidate
           | Some n \<Rightarrow>
               \<lparr>c_name = n,
                c_batch = or_else (o_batch obj) (or_else (o_lot obj) []),
                c_expiry = or_else (o_expiry obj) []\<rparr>)
      | _ \<Rightarrow> empty_candidate)"

definition parsePayload :: "(string \<Rightarrow> json) \<Rightarrow> string \<Rightarrow> candidate" where
  "parsePayload json_parse raw =
     (let out = json_fields (json_parse raw)
      in if c_name out \<noteq> [] then out
         else \<lparr>c_name = raw,
               c_batch = (case match_m10 raw of Some b \<Rightarrow> b | None \<Rightarrow> c_batch out),
               c_expiry = (case match_m17 raw of Some e \<Rightarrow> e | None \<Rightarrow> c_expiry out)\<rparr>)"

text \<open>
  \<open>JSON.parse\<close> on the payloads used as examples below; every other input is taken as
  not being JSON.
\<close>

definition no_properties :: decoded_object where
  "no_properties = \<lparr>o_drugName = Falsy, o_name = Falsy, o_productName = Falsy,
     o_batch = [], o_lot = [], o_expiry = []\<rparr>"

definition example_parse :: "string \<Rightarrow> json" where
  \<open>example_parse raw =
     (if raw = ''{"name":"Panadol (10)B7(17)250131","lot":"L9"}''
        then JObj (no_properties\<lparr>o_name := Str ''Panadol (10)B7(17)250131'', o_lot := ''L9''\<rparr>)
      else if raw = ''{"drugName":[],"name":"Aspirin (10)B7(17)250131"}''
        then JObj (no_properties\<lparr>o_drugName := Truthy (Some []),
                                   o_name := Str ''Aspirin (10)B7(17)250131''\<rparr>)
      else if raw = ''{"lot":"L9"}'' then JObj (no_properties\<lparr>o_lot := ''L9''\<rparr>)
      else if raw = ''{"name":" Aspirin "}'' then JObj (no_properties\<lparr>o_name := Str '' Aspirin ''\<rparr>)
      else if raw = ''null'' then JNull
      else if raw = ''4000'' then JPrimitive
      else JNotJson)\<close>

section \<open>The local index\<close>

text \<open>
  A record of the dataset. \<open>synonyms\<close> is read in two places: \<open>loadDrapLocal\<close> tests
  \<open>Array.isArray\<close> before it indexes the synonyms, the lookup loop only tests
  truthiness before it calls \<open>join\<close>. The three cases that these tests tell apart are
  kept: absent or falsy, an array of strings, and a truthy value that is not an array
  (a string, say). The other fields have the types of the data model. \<open>maxDoseMg\<close> is a
  finite number; every finite double is a rational and is compared as one.
\<close>

datatype synonyms = NoSyn | SynList "string list" | SynNonArray

record drug =
  d_name :: string
  d_manufacturer :: string
  d_batch :: string
  d_expiry :: string
  d_uses :: "string list"
  d_adrs :: "string list"
  d_dosage :: string
  d_maxDoseMg :: "rat option"
  d_synonyms :: synonyms

text \<open>
  \<open>drapIndex\<close> is a plain object. Its own properties are kept in creation order;
  assigning to an existing key keeps the key's position. Assigning to \<open>__proto__\<close>
  creates no own property (it replaces the prototype; a dataset with such a name or
  synonym is outside the model, which does not follow the replaced prototype).
\<close>

type_synonym index = "(string \<times> drug) list"

fun obj_set :: "(string \<times> 'v) list \<Rightarrow> string \<Rightarrow> 'v \<Rightarrow> (string \<times> 'v) list" where
  "obj_set [] k v = [(k, v)]"
| "obj_set ((k', v') # ps) k v = (if k' = k then (k, v) # ps else (k', v') # obj_set ps k v)"

definition index_set :: "index \<Rightarrow> string \<Rightarrow> drug \<Rightarrow> index" where
  "index_set idx k d = (if k = ''__proto__'' then idx else obj_set idx k d)"

text \<open>
  \<open>drapIndex[k]\<close> also finds what a plain object inherits. Two inherited properties have
  an all-lowercase name: \<open>constructor\<close>, the function \<open>Object\<close>, whose \<open>name\<close> is
  \<open>Object\<close>, and \<open>__proto__\<close>, the prototype object. Both are truthy and have none of
  the other fields of a record.
\<close>

definition no_fields :: drug where
  "no_fields = \<lparr>d_name = [], d_manufacturer = [], d_batch = [], d_expiry = [], d_uses = [],
     d_adrs = [], d_dosage = [], d_maxDoseMg = None, d_synonyms = NoSyn\<rparr>"

definition inherited :: "string \<Rightarrow> drug option" where
  "inherited k =
     (if k = ''constructor'' then Some (no_fields\<lparr>d_name := ''Object''\<rparr>)
      else if k = ''__proto__'' then Some no_fields
      else None)"

definition index_get :: "index \<Rightarrow> string \<Rightarrow> drug option" where
  "index_get idx k = (case map_of idx k of Some d \<Rightarrow> Some d | None \<Rightarrow> inherited k)"

text \<open>
  \<open>for(const k in drapIndex)\<close> visits the own keys that are array indices (canonical
  decimal numerals below \<open>2^32 - 1\<close>) in ascending numeric order, then the other keys
  in creation order. The inherited properties are not enumerable.
\<close>

definition digits_value :: "string \<Rightarrow> nat" where
  "digits_value s = foldl (\<lambda>n c. 10 * n + (of_char c - 48)) 0 s"

definition is_array_index :: "string \<Rightarrow> bool" where
  "is_array_index k \<longleftrightarrow>
     k \<noteq> [] \<and> list_all is_digit k \<and> (k = ''0'' \<or> hd k \<noteq> CHR ''0'') \<and> digits_value k < 2 ^ 32 - 1"

definition for_in :: "(string \<times> 'v) list \<Rightarrow> (string \<times> 'v) list" where
  "for_in obj =
     sort_key (\<lambda>p. digits_value (fst p)) (filter (\<lambda>p. is_array_index (fst p)) obj)
     @ filter (\<lambda>p. \<not> is_array_index (fst p)) obj"

text \<open>\<open>loadDrapLocal\<close>: the body of \<open>arr.forEach\<close> for one record, and the whole load.\<close>

definition index_record :: "index \<Rightarrow> drug \<Rightarrow> index" where
  "index_record idx d =
     (let idx1 = (if d_name d \<noteq> [] then index_set idx (toLowerCase (d_name d)) d else idx)
      in case d_synonyms d of
           SynList ss \<Rightarrow> foldl (\<lambda>i s. index_set i (toLowerCase s) d) idx1 ss
         | _ \<Rightarrow> idx1)"

text \<open>
  What the fetch of the dataset file gives: the fetch rejects, the status is not ok, the
  body is not the JSON array of records that \<open>forEach\<close> runs through without an
  exception, or it is that array.
\<close>

datatype dataset_response = FetchRejected | NotOk | Malformed | Loaded "drug list"

definition loadDrapLocal :: "dataset_response \<Rightarrow> index" where
  "loadDrapLocal r = (case r of Loaded arr \<Rightarrow> foldl index_record [] arr | _ \<Rightarrow> [])"

section \<open>fetchAndRenderDrug: lookup, fallback, merge\<close>

datatype error = TypeError

text \<open>
  The loop over the index keys, on the lowercased name \<open>n\<close>. \<open>drapIndex[k].synonyms.join\<close>
  is not a function when the synonyms are a truthy value that is not an array: the call
  throws, and nothing in \<open>fetchAndRenderDrug\<close> catches it.
\<close>

fun scan_index :: "(string \<times> drug) list \<Rightarrow> string \<Rightarrow> error + drug option" where
  "scan_index [] n = Inr None"
| "scan_index ((k, d) # es) n =
     (if str_includes k n then Inr (Some d)
      else (case d_synonyms d of
              NoSyn \<Rightarrow> scan_index es n
            | SynNonArray \<Rightarrow> Inl TypeError
            | SynList ss \<Rightarrow>
                (if str_includes (toLowerCase (join '' '' ss)) n then Inr (Some d)
                 else scan_index es n)))"

definition local_lookup :: "index \<Rightarrow> string \<Rightarrow> error + drug option" where
  "local_lookup idx name =
     (case index_get idx (toLowerCase name) of
        Some d \<Rightarrow> Inr (Some d)
      | None \<Rightarrow> scan_index (for_in idx) (toLowerCase name))"

text \<open>
  The two OpenFDA queries are the environment. For a name, each gives the values that
  its \<open>try\<close> block assigned (\<open>usesFDA\<close> and \<open>doseFDA\<close>, or \<open>adrsFDA\<close>), or \<open>None\<close> when the
  fetch rejected, the status was not ok or the body could not be read, which leaves the
  variables as initialised. The response bodies and the extraction from them are not
  modelled. Every request made is recorded.
\<close>

record env =
  label_query :: "string \<Rightarrow> (string list \<times> string) option"
  event_query :: "string \<Rightarrow> string list option"

datatype request = LabelRequest string | EventRequest string

record merged =
  m_name :: string
  m_manufacturer :: string
  m_batch :: string
  m_expiry :: string
  m_uses_local :: "string list"
  m_adrs_local :: "string list"
  m_uses_official :: "string list"
  m_adrs_reported :: "string list"
  m_dosage_official :: string
  m_maxDoseMg :: "rat option"

text \<open>\<open>local?.f || dflt\<close> on a string field, and \<open>x || null\<close> on a number.\<close>

definition opt_field :: "drug option \<Rightarrow> (drug \<Rightarrow> string) \<Rightarrow> string" where
  "opt_field l f = (case l of None \<Rightarrow> [] | Some d \<Rightarrow> f d)"

definition num_or_null :: "rat option \<Rightarrow> rat option" where
  "num_or_null x = (case x of None \<Rightarrow> None | Some q \<Rightarrow> if q = 0 then None else Some q)"

text \<open>
  The object literal \<open>merged\<close>. \<open>name\<close> is the local variable of \<open>fetchAndRenderDrug\<close>,
  the trimmed name of the candidate.
\<close>

definition merge :: "candidate \<Rightarrow> string \<Rightarrow> drug option \<Rightarrow> string list \<Rightarrow> string list \<Rightarrow> string \<Rightarrow> merged" where
  "merge parsed name l usesFDA adrsFDA doseFDA =
     \<lparr>m_name = or_else (opt_field l d_name) name,
      m_manufacturer = or_else (opt_field l d_manufacturer) ''Unknown'',
      m_batch = or_else (c_batch parsed) (or_else (opt_field l d_batch) []),
      m_expiry = or_else (c_expiry parsed) (or_else (opt_field l d_expiry) []),
      m_uses_local = (case l of None \<Rightarrow> [] | Some d \<Rightarrow> d_uses d),
      m_adrs_local = (case l of None \<Rightarrow> [] | Some d \<Rightarrow> d_adrs d),
      m_uses_official = usesFDA,
      m_adrs_reported = adrsFDA,
      m_dosage_official = or_else (opt_field l d_dosage) (or_else doseFDA []),
      m_maxDoseMg = (case l of None \<Rightarrow> None | Some d \<Rightarrow> num_or_null (d_maxDoseMg d))\<rparr>"

text \<open>
  The fallback block: the values of \<open>usesFDA\<close>, \<open>adrsFDA\<close> and \<open>doseFDA\<close> after it, and
  the requests it made.
\<close>

definition fallback :: "env \<Rightarrow> string \<Rightarrow> drug option \<Rightarrow> (string list \<times> string list \<times> string) \<times> request list" where
  "fallback e name l =
     (case l of
        Some d \<Rightarrow> (([], [], []), [])
      | None \<Rightarrow>
          (let (usesFDA, doseFDA) = (case label_query e name of None \<Rightarrow> ([], []) | Some r \<Rightarrow> r);
               adrsFDA = (case event_query e name of None \<Rightarrow> [] | Some a \<Rightarrow> a)
           in ((usesFDA, adrsFDA, doseFDA), [LabelRequest name, EventRequest name])))"

text \<open>
  \<open>fetchAndRenderDrug\<close>, up to the call of \<open>renderDrug\<close>: \<open>Inl\<close> is the exception that
  leaves the function, \<open>Inr (None, [])\<close> the early return on an empty name, and
  \<open>Inr (Some m, reqs)\<close> the record handed to \<open>renderDrug\<close> with the requests made.
\<close>

definition fetchAndRenderDrug :: "index \<Rightarrow> env \<Rightarrow> candidate \<Rightarrow> error + (merged option \<times> request list)" where
  "fetchAndRenderDrug idx e parsed =
     (let name = trim (c_name parsed)
      in if name = [] then Inr (None, [])
         else (case local_lookup idx name of
                 Inl err \<Rightarrow> Inl err
               | Inr l \<Rightarrow>
                   (let ((usesFDA, adrsFDA, doseFDA), reqs) = fallback e name l
                    in Inr (Some (merge parsed name l usesFDA adrsFDA doseFDA), reqs))))"

text \<open>\<open>resolve\<close> of the specification: \<open>handleScanned\<close> without its effects on the page.\<close>

definition resolve :: "(string \<Rightarrow> json) \<Rightarrow> index \<Rightarrow> env \<Rightarrow> string \<Rightarrow> error + (merged option \<times> request list)" where
  "resolve json_parse idx e raw = fetchAndRenderDrug idx e (parsePayload json_parse raw)"

section \<open>Example data\<close>

text \<open>The dataset of the specification's scenarios, and what the network may answer.\<close>

definition panadol :: drug where
  "panadol = no_fields\<lparr>d_name := ''Panadol'', d_maxDoseMg := Some 4000,
     d_synonyms := SynList [''paracetamol'']\<rparr>"

definition panadol_index :: index where
  "panadol_index = loadDrapLocal (Loaded [panadol])"

text \<open>A record whose \<open>synonyms\<close> is a string: \<open>{"name":"Aspirin","synonyms":"asa"}\<close>.\<close>

definition aspirin_string_synonyms :: drug where
  "aspirin_string_synonyms = no_fields\<lparr>d_name := ''Aspirin'', d_synonyms := SynNonArray\<rparr>"

definition offline :: env where
  "offline = \<lparr>label_query = (\<lambda>n. None), event_query = (\<lambda>n. None)\<rparr>"

definition online :: env where
  "online = \<lparr>label_query = (\<lambda>n. Some ([''Pain relief''], ''One tablet'')),
              event_query = (\<lambda>n. Some [''NAUSEA''])\<rparr>"

text \<open>A candidate with white space around its name, and what it is merged to.\<close>

definition padded_candidate :: candidate where
  "padded_candidate = \<lparr>c_name = '' Panadol '', c_batch = ''B7'', c_expiry = []\<rparr>"

definition padded_merged :: merged where
  "padded_merged = \<lparr>m_name = ''Panadol'', m_manufacturer = ''Unknown'',
     m_batch = ''B7'', m_expiry = [], m_uses_local = [], m_adrs_local = [],
     m_uses_official = [], m_adrs_reported = [], m_dosage_official = [],
     m_maxDoseMg = Some 4000\<rparr>"

text \<open>
  The condition of the lookup loop for one entry, where it does not throw: the key
  contains the lowercased name, or the synonyms of the entry's record, joined by single
  spaces and lowercased, contain it.
\<close>

definition entry_matches :: "string \<Rightarrow> string \<times> drug \<Rightarrow> bool" where
  "entry_matches n p \<longleftrightarrow>
     str_includes (fst p) n
     \<or> (case d_synonyms (snd p) of
          SynList ss \<Rightarrow> str_includes (toLowerCase (join '' '' ss)) n
        | _ \<Rightarrow> False)"

section \<open>The drug card\<close>

text \<open>
  \<open>escapeHtml\<close> on a string: three \<open>replaceAll\<close> in a row.
\<close>

definition replaceAll :: "char \<Rightarrow> string \<Rightarrow> string \<Rightarrow> string" where
  "replaceAll x r s = concat (map (\<lambda>c. if c = x then r else [c]) s)"

definition escapeHtml :: "string \<Rightarrow> string" where
  "escapeHtml s =
     replaceAll (CHR ''>'') ''&gt;'' (replaceAll (CHR ''<'') ''&lt;'' (replaceAll (CHR ''&'') ''&amp;'' s))"

text \<open>
  The content of \<open>#drugCard\<close> after an assignment to \<open>innerHTML\<close>, as the tree the
  parser builds from the template: an element has a tag, its class names and its
  children. Every interpolation into the card goes through \<open>escapeHtml\<close>; the escaped
  string opens no tag, and the parser reads it back as text holding the original string,
  which is what the \<open>Text\<close> node of an interpolation holds. Static text and
  interpolations are separate \<open>Text\<close> nodes here; the blanks around them, text of white
  space only and the \<open>style\<close> attributes are left out.
\<close>

datatype html = Elem string "string list" "html list" | Text string

definition bullet :: string where
  "bullet = [CHR 0xE2, CHR 0x80, CHR 0xA2]"

definition em_dash :: string where
  "em_dash = [CHR 0xE2, CHR 0x80, CHR 0x94]"

definition li :: "string \<Rightarrow> html" where
  "li x = Elem ''li'' [] [Text x]"

definition renderQuickCard :: "index \<Rightarrow> candidate \<Rightarrow> html list" where
  "renderQuickCard idx parsed =
     (case index_get idx (toLowerCase (c_name parsed)) of
        Some l \<Rightarrow>
          [Elem ''div'' [] [Text (d_name l)],
           Elem ''div'' []
             [Elem ''b'' [] [Text ''Manufacturer:''],
              Text (or_else (d_manufacturer l) em_dash), Text bullet,
              Elem ''b'' [] [Text ''Batch:''],
              Text (or_else (c_batch parsed) (or_else (d_batch l) ''N/A''))]]
      | None \<Rightarrow>
          [Elem ''div'' [] [Text (c_name parsed)],
           Elem ''div'' []
             ((if c_batch parsed \<noteq> []
               then [Elem ''b'' [] [Text ''Batch:''], Text (c_batch parsed), Text bullet] else [])
              @ (if c_expiry parsed \<noteq> []
                 then [Elem ''b'' [] [Text ''EXP:''], Text (c_expiry parsed)] else []))])"

definition no_name_card :: "html list" where
  "no_name_card = [Elem ''div'' [] [Text ''No drug name detected.'']]"

definition section_list :: "string \<Rightarrow> string list \<Rightarrow> html list" where
  "section_list title xs =
     (if xs \<noteq> []
      then [Elem ''div'' [''section''] [Elem ''b'' [] [Text title], Elem ''ul'' [] (map li xs)]]
      else [])"

definition renderDrug :: "merged \<Rightarrow> html list" where
  "renderDrug d =
     (let usesLocalHtml =
            (if m_uses_local d \<noteq> [] then section_list ''DRAP / Local Uses:'' (m_uses_local d)
             else [Elem ''div'' [''section''] [Elem ''i'' [] [Text ''No local DRAP entry.'']]]);
          usesOffHtml = section_list ''OpenFDA Uses:'' (m_uses_official d);
          adrsLocalHtml = section_list ''Local ADRs (DRAP):'' (m_adrs_local d);
          adrsRepHtml = section_list ''Reported ADRs (OpenFDA events):'' (m_adrs_reported d);
          doseHtml =
            (if m_dosage_official d \<noteq> []
             then [Elem ''div'' [''section'']
                     [Elem ''b'' [] [Text ''Dosage & Administration (official):''],
                      Elem ''div'' [] [Text (m_dosage_official d)]]]
             else [])
      in [Elem ''div'' []
            [Elem ''div'' []
               [Elem ''div'' [] [Text (m_name d)],
                Elem ''div'' []
                  [Elem ''b'' [] [Text ''Manufacturer:''], Text (m_manufacturer d), Text bullet,
                   Elem ''b'' [] [Text ''Batch:''], Text (or_else (m_batch d) ''N/A''), Text bullet,
                   Elem ''b'' [] [Text ''EXP:''], Text (or_else (m_expiry d) em_dash)]]]]
         @ doseHtml @ usesLocalHtml @ usesOffHtml @ adrsLocalHtml @ adrsRepHtml
         @ [Elem ''div'' []
              [Text ''Note: DRAP local entries are authoritative for demo. OpenFDA is fallback (US data).'']])"

text \<open>
  \<open>card.querySelector('.c')\<close>: the first element below the card, in document order, that
  has the class; and \<open>textContent\<close>.
\<close>

fun find_class :: "string \<Rightarrow> html \<Rightarrow> html option"
  and find_class_list :: "string \<Rightarrow> html list \<Rightarrow> html option" where
  "find_class c (Text s) = None"
| "find_class c (Elem t cs kids) =
     (if c \<in> set cs then Some (Elem t cs kids) else find_class_list c kids)"
| "find_class_list c [] = None"
| "find_class_list c (n # ns) =
     (case find_class c n of Some e \<Rightarrow> Some e | None \<Rightarrow> find_class_list c ns)"

fun textContent :: "html \<Rightarrow> string"
  and textContent_list :: "html list \<Rightarrow> string" where
  "textContent (Text s) = s"
| "textContent (Elem t cs kids) = textContent_list kids"
| "textContent_list [] = []"
| "textContent_list (n # ns) = textContent n @ textContent_list ns"

section \<open>The page: scanning and reporting\<close>

text \<open>
  A number of the reports: a finite number, an infinity, \<open>NaN\<close>, or the \<open>null\<close> that
  \<open>JSON.stringify\<close> writes for the infinities and for \<open>NaN\<close>. The value of the amount
  field is seen through \<open>Number(value || 0)\<close>: the field is empty, or \<open>Number\<close> reads a
  finite number from it, or \<open>Infinity\<close> (as from \<open>1e999\<close>), or \<open>-Infinity\<close>, or
  \<open>Number\<close> gives \<open>NaN\<close>.
\<close>

datatype jsnum = Num rat | PosInf | NegInf | NaN | Null

datatype amount_value =
  AmountEmpty | AmountNumeric rat | AmountInfinity | AmountNegInfinity | AmountNonNumeric

definition Number_or_0 :: "amount_value \<Rightarrow> jsnum" where
  "Number_or_0 v =
     (case v of
        AmountEmpty \<Rightarrow> Num 0
      | AmountNumeric q \<Rightarrow> Num q
      | AmountInfinity \<Rightarrow> PosInf
      | AmountNegInfinity \<Rightarrow> NegInf
      | AmountNonNumeric \<Rightarrow> NaN)"

text \<open>
  Truthiness of a number, and \<open>x > m\<close> for a finite \<open>m\<close> (\<open>null\<close> is compared as 0).
\<close>

definition truthy_num :: "jsnum \<Rightarrow> bool" where
  "truthy_num x =
     (case x of Num q \<Rightarrow> q \<noteq> 0 | PosInf \<Rightarrow> True | NegInf \<Rightarrow> True | NaN \<Rightarrow> False | Null \<Rightarrow> False)"

definition gt_num :: "jsnum \<Rightarrow> rat \<Rightarrow> bool" where
  "gt_num x m =
     (case x of Num q \<Rightarrow> m < q | PosInf \<Rightarrow> True | NegInf \<Rightarrow> False | NaN \<Rightarrow> False | Null \<Rightarrow> m < 0)"

record form =
  p_batch :: string
  p_name :: string
  p_age :: string
  p_gender :: string
  p_phone :: string
  p_condition :: string
  p_severity :: string
  p_amount_mg :: amount_value
  p_desc :: string

record report =
  r_id :: string
  r_drug :: string
  r_batch :: string
  r_patientName :: string
  r_age :: string
  r_gender :: string
  r_phone :: string
  r_condition :: string
  r_severity :: string
  r_amountMg :: jsnum
  r_description :: string
  r_date :: string
  r_highDose :: bool

text \<open>
  The clock: \<open>Date.now()\<close> in decimal digits and \<open>new Date().toISOString()\<close>.
\<close>

record clock =
  now_ms :: string
  iso_now :: string

text \<open>
  The state of the page: the index, \<open>lastParsed\<close>, the content of the drug card, and
  the item of the local storage under \<open>STORAGE_KEY\<close>. The item is absent (\<open>None\<close>) or holds
  the text that \<open>JSON.stringify\<close> made of an array of reports; it is kept as the array
  that \<open>JSON.parse\<close> reads back from that text. Strings, booleans and finite numbers are
  read back as they were written; \<open>NaN\<close>, \<open>Infinity\<close> and \<open>-Infinity\<close> are written as
  \<open>null\<close>.
\<close>

record page =
  drapIndex :: index
  lastParsed :: candidate
  drugCard :: "html list"
  storage :: "report list option"

definition json_roundtrip :: "report \<Rightarrow> report" where
  "json_roundtrip r = r\<lparr>r_amountMg := (case r_amountMg r of Num q \<Rightarrow> Num q | _ \<Rightarrow> Null)\<rparr>"

text \<open>\<open>JSON.parse(localStorage.getItem(STORAGE_KEY) || '[]')\<close>.\<close>

definition readAllReports :: "page \<Rightarrow> report list" where
  "readAllReports st = (case storage st of None \<Rightarrow> [] | Some arr \<Rightarrow> arr)"

definition clearAll :: "page \<Rightarrow> page" where
  "clearAll st = st\<lparr>storage := None\<rparr>"

text \<open>
  \<open>handleScanned\<close>: the candidate is stored in \<open>lastParsed\<close>, the quick card is shown,
  and \<open>fetchAndRenderDrug\<close> replaces it, unless it throws.
\<close>

definition handleScanned :: "(string \<Rightarrow> json) \<Rightarrow> env \<Rightarrow> string \<Rightarrow> page \<Rightarrow> page \<times> error option" where
  "handleScanned json_parse e raw st =
     (let parsed = parsePayload json_parse raw;
          st1 = st\<lparr>lastParsed := parsed, drugCard := renderQuickCard (drapIndex st) parsed\<rparr>
      in case fetchAndRenderDrug (drapIndex st) e parsed of
           Inl err \<Rightarrow> (st1, Some err)
         | Inr (None, reqs) \<Rightarrow> (st1\<lparr>drugCard := no_name_card\<rparr>, None)
         | Inr (Some m, reqs) \<Rightarrow> (st1\<lparr>drugCard := renderDrug m\<rparr>, None))"

text \<open>
  The dose check of the submit handler: \<open>local && local.maxDoseMg && amountMg\<close>, then
  \<open>amountMg > Number(local.maxDoseMg)\<close>.
\<close>

definition highDose :: "index \<Rightarrow> string \<Rightarrow> jsnum \<Rightarrow> bool" where
  "highDose idx drug amountMg =
     (case index_get idx (toLowerCase drug) of
        None \<Rightarrow> False
      | Some l \<Rightarrow>
          (case num_or_null (d_maxDoseMg l) of
             None \<Rightarrow> False
           | Some mx \<Rightarrow> truthy_num amountMg \<and> gt_num amountMg mx))"

datatype submit_result = ValidationFailed | Saved report

definition drug_title :: "html list \<Rightarrow> string" where
  "drug_title nodes = (case find_class_list ''drug-title'' nodes of None \<Rightarrow> [] | Some el \<Rightarrow> textContent el)"

definition submit :: "page \<Rightarrow> form \<Rightarrow> clock \<Rightarrow> page \<times> submit_result" where
  "submit st f c =
     (let amountMg = Number_or_0 (p_amount_mg f);
          report =
            \<lparr>r_id = ''r_'' @ now_ms c,
             r_drug = or_else (drug_title (drugCard st)) (or_else (c_name (lastParsed st)) ''Unknown''),
             r_batch = or_else (p_batch f) (or_else (c_batch (lastParsed st)) []),
             r_patientName = trim (p_name f),
             r_age = trim (p_age f),
             r_gender = trim (p_gender f),
             r_phone = trim (p_phone f),
             r_condition = trim (p_condition f),
             r_severity = trim (p_severity f),
             r_amountMg = amountMg,
             r_description = trim (p_desc f),
             r_date = iso_now c,
             r_highDose = False\<rparr>
      in if r_patientName report = [] \<or> r_age report = [] \<or> r_gender report = []
            \<or> r_condition report = [] \<or> r_severity report = [] \<or> r_description report = []
         then (st, ValidationFailed)
         else (let report1 = report\<lparr>r_highDose := highDose (drapIndex st) (r_drug report) amountMg\<rparr>;
                   arr = readAllReports st
               in (st\<lparr>storage := Some (map json_roundtrip (arr @ [report1]))\<rparr>, Saved report1)))"

text \<open>
  Modelled from the spec: the static content of \<open>#drugCard\<close>. It is written in
  index.html, which is not among the sources; the sources fill the card through
  \<open>innerHTML\<close> and un-hide it at the first rendering, and C4 has it that nothing on the
  page matches \<open>.drug-title\<close>. The card is taken to start without content.
\<close>

definition static_card :: "html list" where
  "static_card = []"

text \<open>
  The page when the script has run to its end: \<open>drapIndex\<close> and \<open>lastParsed\<close> as
  declared (lines 25 and 29), the static card, and whatever the local storage holds.
\<close>

definition initial_page :: "report list option \<Rightarrow> page" where
  "initial_page stored =
     \<lparr>drapIndex = [], lastParsed = empty_candidate, drugCard = static_card, storage = stored\<rparr>"

text \<open>
  What happens on the page afterwards, one event at a time. \<open>handleScanned\<close> and
  \<open>loadDrapLocal\<close> are asynchronous, and a submission or another scan may come between
  their steps, so a scan is two events: its synchronous start (\<open>lastParsed\<close> is set and
  the quick card shown), and the later writing of the card by \<open>fetchAndRenderDrug\<close>,
  with no merged record for the empty-name message. Any record may be written at any
  time, which covers every interleaving of every number of scans.
\<close>

datatype event =
    DatasetLoaded dataset_response
  | ScanStarted string
  | CardWritten "merged option"
  | Submitted form clock
  | Cleared

definition step :: "(string \<Rightarrow> json) \<Rightarrow> page \<Rightarrow> event \<Rightarrow> page" where
  "step json_parse st ev =
     (case ev of
        DatasetLoaded r \<Rightarrow> st\<lparr>drapIndex := loadDrapLocal r\<rparr>
      | ScanStarted raw \<Rightarrow>
          st\<lparr>lastParsed := parsePayload json_parse raw,
             drugCard := renderQuickCard (drapIndex st) (parsePayload json_parse raw)\<rparr>
      | CardWritten None \<Rightarrow> st\<lparr>drugCard := no_name_card\<rparr>
      | CardWritten (Some m) \<Rightarrow> st\<lparr>drugCard := renderDrug m\<rparr>
      | Submitted f c \<Rightarrow> fst (submit st f c)
      | Cleared \<Rightarrow> clearAll st)"

definition run :: "(string \<Rightarrow> json) \<Rightarrow> page \<Rightarrow> event list \<Rightarrow> page" where
  "run json_parse st evs = foldl (step json_parse) st evs"

text \<open>The raw text of the scan started last, if any.\<close>

definition last_scanned :: "event list \<Rightarrow> string option" where
  "last_scanned evs =
     foldl (\<lambda>acc ev. case ev of ScanStarted raw \<Rightarrow> Some raw | _ \<Rightarrow> acc) None evs"

text \<open>Example data for the page.\<close>

definition paracet_events :: "event list" where
  "paracet_events =
     [DatasetLoaded (Loaded [panadol]), ScanStarted ''paracet'', CardWritten (Some padded_merged)]"

definition infinity_form :: form where
  "infinity_form = \<lparr>p_batch = [], p_name = ''Ali'', p_age = ''40'', p_gender = ''M'', p_phone = [],
     p_condition = ''Fever'', p_severity = ''Mild'', p_amount_mg = AmountInfinity,
     p_desc = ''Rash''\<rparr>"

definition infinity_report :: report where
  "infinity_report = \<lparr>r_id = ''r_1700000000000'', r_drug = ''Panadol'', r_batch = [],
     r_patientName = ''Ali'', r_age = ''40'', r_gender = ''M'', r_phone = [],
     r_condition = ''Fever'', r_severity = ''Mild'', r_amountMg = PosInf,
     r_description = ''Rash'', r_date = ''2023-11-14T22:13:20.000Z'', r_highDose = True\<rparr>"


definition negative_max :: drug where
  "negative_max = no_fields\<lparr>d_name := ''X'', d_maxDoseMg := Some (- 10)\<rparr>"

definition start_page :: page where
  "start_page = \<lparr>drapIndex = panadol_index, lastParsed = empty_candidate, drugCard = [],
                 storage = None\<rparr>"

definition patient_form :: form where
  "patient_form = \<lparr>p_batch = [], p_name = ''Ali'', p_age = ''40'', p_gender = ''M'', p_phone = [],
     p_condition = ''Fever'', p_severity = ''Mild'', p_amount_mg = AmountNumeric 5000,
     p_desc = ''Rash''\<rparr>"

definition noon :: clock where
  "noon = \<lparr>now_ms = ''1700000000000'', iso_now = ''2023-11-14T22:13:20.000Z''\<rparr>"

definition paracet_report :: report where
  "paracet_report = \<lparr>r_id = ''r_1700000000000'', r_drug = ''paracet'', r_batch = [],
     r_patientName = ''Ali'', r_age = ''40'', r_gender = ''M'', r_phone = [],
     r_condition = ''Fever'', r_severity = ''Mild'', r_amountMg = Num 5000,
     r_description = ''Rash'', r_date = ''2023-11-14T22:13:20.000Z'', r_highDose = False\<rparr>"



definition blank_name_form :: form where
  "blank_name_form = patient_form\<lparr>p_name := ''  ''\<rparr>"

section \<open>Properties of parsePayload\<close>

lemma match_m10_example: "match_m10 ''(10)AB-12(17)250131'' = Some ''AB-12''"
  by (simp add: strip_prefix_def gs1_char_def)

lemma match_m17_example: "match_m17 ''(10)AB-12(17)250131'' = Some ''250131''"
  by (simp add: strip_prefix_def is_digit_def)

text \<open>
  C6, as stated: whenever the payload decodes to an object that has a non-empty name under
  \<open>drugName\<close>, \<open>name\<close> or \<open>productName\<close>, that name is returned and the patterns are not
  applied. In \<open>{"drugName":[],"name":"Aspirin (10)B7(17)250131"}\<close> the empty array under
  \<open>drugName\<close> is truthy and is the value taken; its \<open>toString\<close> is empty, so the
  structured path is left, the name returned is the raw text and batch and expiry come
  from the two patterns.
\<close>

theorem parsePayload_truthy_array_counterexample:
  \<open>example_parse ''{"drugName":[],"name":"Aspirin (10)B7(17)250131"}'' =
       JObj (no_properties\<lparr>o_drugName := Truthy (Some []),
                              o_name := Str ''Aspirin (10)B7(17)250131''\<rparr>)
   \<and> parsePayload example_parse ''{"drugName":[],"name":"Aspirin (10)B7(17)250131"}'' =
       \<lparr>c_name = ''{"drugName":[],"name":"Aspirin (10)B7(17)250131"}'',
        c_batch = ''B7'', c_expiry = ''250131''\<rparr>\<close>
  by code_simp

text \<open>
  C6, amended. When the payload decodes to an object, and the first truthy value among
  those under \<open>drugName\<close>, \<open>name\<close>, \<open>productName\<close>, in this order, has a non-empty
  \<open>toString\<close>, then \<open>parsePayload\<close> returns at once: the name is that string,
  unchanged, batch and expiry are the object's own \<open>batch\<close> (or \<open>lot\<close>) and \<open>expiry\<close>,
  and the two patterns are never applied to the raw text. In particular, when the three
  values are strings or absent, the name is the first non-empty one of them.
\<close>

theorem parsePayload_structured:
  assumes "json_parse raw = JObj obj"
    and "toString (first_truthy [o_drugName obj, o_name obj, o_productName obj]) = Some n"
    and "n \<noteq> []"
  shows "parsePayload json_parse raw =
           \<lparr>c_name = n,
            c_batch = (if o_batch obj \<noteq> [] then o_batch obj else o_lot obj),
            c_expiry = o_expiry obj\<rparr>
         \<and> (\<forall>a b c. o_drugName obj = Str a \<longrightarrow> o_name obj = Str b \<longrightarrow> o_productName obj = Str c \<longrightarrow>
                n = (if a \<noteq> [] then a else if b \<noteq> [] then b else c))"
proof -
  from assms have "parsePayload json_parse raw =
           \<lparr>c_name = n,
            c_batch = (if o_batch obj \<noteq> [] then o_batch obj else o_lot obj),
            c_expiry = o_expiry obj\<rparr>"
    by (simp add: parsePayload_def json_fields_def or_else_def Let_def)
  moreover have "n = (if a \<noteq> [] then a else if b \<noteq> [] then b else c)"
    if "o_drugName obj = Str a" "o_name obj = Str b" "o_productName obj = Str c" for a b c
    using assms(2) that by (simp add: truthy_def toString_def split: if_splits)
  ultimately show ?thesis by blast
qed

theorem parsePayload_structured_witness:
  \<open>parsePayload example_parse ''{"name":"Panadol (10)B7(17)250131","lot":"L9"}'' =
     \<lparr>c_name = ''Panadol (10)B7(17)250131'', c_batch = ''L9'', c_expiry = []\<rparr>
   \<and> match_m10 ''{"name":"Panadol (10)B7(17)250131","lot":"L9"}'' = Some ''B7''
   \<and> match_m17 ''{"name":"Panadol (10)B7(17)250131","lot":"L9"}'' = Some ''250131''\<close>
proof -
  have p: \<open>example_parse ''{"name":"Panadol (10)B7(17)250131","lot":"L9"}'' =
             JObj (no_properties\<lparr>o_name := Str ''Panadol (10)B7(17)250131'', o_lot := ''L9''\<rparr>)\<close>
    by (simp add: example_parse_def)
  have n: "toString (first_truthy
             [o_drugName (no_properties\<lparr>o_name := Str ''Panadol (10)B7(17)250131'', o_lot := ''L9''\<rparr>),
              o_name (no_properties\<lparr>o_name := Str ''Panadol (10)B7(17)250131'', o_lot := ''L9''\<rparr>),
              o_productName (no_properties\<lparr>o_name := Str ''Panadol (10)B7(17)250131'', o_lot := ''L9''\<rparr>)])
           = Some ''Panadol (10)B7(17)250131''"
    by (simp add: no_properties_def truthy_def toString_def)
  have m10: \<open>match_m10 ''{"name":"Panadol (10)B7(17)250131","lot":"L9"}'' = Some ''B7''\<close>
    by (simp add: strip_prefix_def gs1_char_def)
  have m17: \<open>match_m17 ''{"name":"Panadol (10)B7(17)250131","lot":"L9"}'' = Some ''250131''\<close>
    by (simp add: strip_prefix_def is_digit_def)
  have "''Panadol (10)B7(17)250131'' \<noteq> []"
    by simp
  from parsePayload_structured [of example_parse _ _ _, OF p n this, THEN conjunct1] m10 m17
  show ?thesis
    by (simp add: no_properties_def)
qed

text \<open>
  C7, as stated: whenever the payload does not decode to an object with a non-empty name,
  the batch is the captured group of the batch pattern and is empty when the pattern
  does not match. The payload \<open>{"lot":"L9"}\<close> decodes to an object without a name; no
  pattern matches in it, and the batch returned is \<open>L9\<close>, taken from the object.
\<close>

theorem parsePayload_batch_counterexample:
  \<open>c_name (json_fields (example_parse ''{"lot":"L9"}'')) = []
   \<and> match_m10 ''{"lot":"L9"}'' = None
   \<and> c_batch (parsePayload example_parse ''{"lot":"L9"}'') = ''L9''\<close>
  by code_simp

text \<open>
  C7, amended. \<open>parsePayload\<close> is a total function. Whenever the payload does not decode
  to an object with a non-empty name, the name returned is the raw text; batch and
  expiry are the captured groups of the two patterns, each found on its own, and where a
  pattern does not match the field keeps what the first block left in it: the \<open>batch\<close>,
  \<open>lot\<close> or \<open>expiry\<close> field of a decoded object, and the empty string when the payload
  did not decode to an object. The empty input, which \<open>JSON.parse\<close> rejects, gives the
  candidate with three empty fields.
\<close>

theorem parsePayload_unstructured:
  "(c_name (json_fields (json_parse raw)) = [] \<longrightarrow>
      c_name (parsePayload json_parse raw) = raw
      \<and> c_batch (parsePayload json_parse raw) =
          (case match_m10 raw of Some b \<Rightarrow> b | None \<Rightarrow> c_batch (json_fields (json_parse raw)))
      \<and> c_expiry (parsePayload json_parse raw) =
          (case match_m17 raw of Some e \<Rightarrow> e | None \<Rightarrow> c_expiry (json_fields (json_parse raw))))
   \<and> ((\<forall>obj. json_parse raw \<noteq> JObj obj) \<longrightarrow>
      parsePayload json_parse raw =
        \<lparr>c_name = raw,
         c_batch = (case match_m10 raw of Some b \<Rightarrow> b | None \<Rightarrow> []),
         c_expiry = (case match_m17 raw of Some e \<Rightarrow> e | None \<Rightarrow> [])\<rparr>)
   \<and> (json_parse [] = JNotJson \<longrightarrow> parsePayload json_parse [] = empty_candidate)"
proof -
  have "c_name (parsePayload json_parse raw) = raw
      \<and> c_batch (parsePayload json_parse raw) =
          (case match_m10 raw of Some b \<Rightarrow> b | None \<Rightarrow> c_batch (json_fields (json_parse raw)))
      \<and> c_expiry (parsePayload json_parse raw) =
          (case match_m17 raw of Some e \<Rightarrow> e | None \<Rightarrow> c_expiry (json_fields (json_parse raw)))"
    if "c_name (json_fields (json_parse raw)) = []"
    using that by (simp add: parsePayload_def Let_def)
  moreover have "parsePayload json_parse raw =
        \<lparr>c_name = raw,
         c_batch = (case match_m10 raw of Some b \<Rightarrow> b | None \<Rightarrow> []),
         c_expiry = (case match_m17 raw of Some e \<Rightarrow> e | None \<Rightarrow> [])\<rparr>"
    if "\<forall>obj. json_parse raw \<noteq> JObj obj"
  proof -
    from that have "json_fields (json_parse raw) = empty_candidate"
      by (cases "json_parse raw") (simp_all add: json_fields_def)
    then show ?thesis
      by (simp add: parsePayload_def Let_def empty_candidate_def split: option.splits)
  qed
  moreover have "parsePayload json_parse [] = empty_candidate" if "json_parse [] = JNotJson"
    using that by (simp add: parsePayload_def json_fields_def empty_candidate_def)
  ultimately show ?thesis by blast
qed

theorem parsePayload_unstructured_witness:
  "c_name (json_fields (example_parse ''(10)AB-12(17)250131'')) = []
   \<and> (\<forall>obj. example_parse ''(10)AB-12(17)250131'' \<noteq> JObj obj)
   \<and> example_parse [] = JNotJson
   \<and> parsePayload example_parse ''(10)AB-12(17)250131'' =
       \<lparr>c_name = ''(10)AB-12(17)250131'', c_batch = ''AB-12'', c_expiry = ''250131''\<rparr>
   \<and> parsePayload example_parse [] = empty_candidate"
proof -
  have a: "example_parse ''(10)AB-12(17)250131'' = JNotJson"
    by (simp add: example_parse_def)
  have b: "example_parse [] = JNotJson"
    by (simp add: example_parse_def)
  have c: "c_name (json_fields (example_parse ''(10)AB-12(17)250131'')) = []"
    by (simp add: a json_fields_def empty_candidate_def)
  show ?thesis
    using parsePayload_unstructured [of example_parse "''(10)AB-12(17)250131''"] a b c
      match_m10_example match_m17_example
    by simp
qed

section \<open>Properties of the lookup\<close>

lemma str_includes_sublist: "str_includes hay needle \<longleftrightarrow> sublist needle hay"
proof (induction hay)
  case Nil
  then show ?case by simp
next
  case (Cons c cs)
  have "prefix needle (c # cs) \<longleftrightarrow> take (length needle) (c # cs) = needle"
    by (metis append_eq_conv_conj prefix_def append_take_drop_id)
  with Cons show ?case
    by (simp add: sublist_Cons_right)
qed

lemma set_for_in: "set (for_in obj) = set obj"
  by (auto simp: for_in_def)

lemma scan_index_find:
  "\<forall>p \<in> set es. d_synonyms (snd p) \<noteq> SynNonArray \<Longrightarrow>
   scan_index es n = Inr (map_option snd (find (entry_matches n) es))"
proof (induction es)
  case Nil
  then show ?case by simp
next
  case (Cons p es)
  obtain k d where p: "p = (k, d)" by (cases p)
  from Cons.prems have ok: "d_synonyms d \<noteq> SynNonArray"
    and rest: "\<forall>p \<in> set es. d_synonyms (snd p) \<noteq> SynNonArray"
    by (simp_all add: p)
  from Cons.IH [OF rest] ok show ?case
    by (cases "d_synonyms d") (simp_all add: p entry_matches_def)
qed

lemma panadol_index_eq: "panadol_index = [(''panadol'', panadol), (''paracetamol'', panadol)]"
  by code_simp

text \<open>
  C1, as stated: against the dataset with the single record Panadol, the name
  \<open>paracetamol 500mg tab\<close> is matched through the synonym and the merged record has the
  name Panadol and the maximum dose 4000. In the code the test runs the other way
  round, the key (or the synonyms) must contain the name: nothing is found, both
  fallback queries are made, and the merged record keeps the raw name and has no
  maximum dose.
\<close>

theorem resolve_synonym_scenario_counterexample:
  "local_lookup panadol_index ''paracetamol 500mg tab'' = Inr None
   \<and> resolve example_parse panadol_index offline ''paracetamol 500mg tab'' =
       Inr (Some \<lparr>m_name = ''paracetamol 500mg tab'', m_manufacturer = ''Unknown'',
                  m_batch = [], m_expiry = [], m_uses_local = [], m_adrs_local = [],
                  m_uses_official = [], m_adrs_reported = [], m_dosage_official = [],
                  m_maxDoseMg = None\<rparr>,
            [LabelRequest ''paracetamol 500mg tab'', EventRequest ''paracetamol 500mg tab''])"
  by code_simp

text \<open>
  C1, amended. For every index whose records have synonyms that are absent or an array,
  and every name with no exact lowercased-key match, the lookup returns the record of
  the first entry, in the iteration order of the index, whose key contains the
  lowercased name as a substring or whose synonyms, joined by single spaces and
  lowercased, contain the lowercased name; it returns no record when there is no such
  entry.
\<close>

theorem local_lookup_substring:
  assumes "index_get idx (toLowerCase name) = None"
    and "\<forall>p \<in> set idx. d_synonyms (snd p) \<noteq> SynNonArray"
  shows "local_lookup idx name =
           Inr (map_option snd (find (entry_matches (toLowerCase name)) (for_in idx)))"
  using assms scan_index_find [of "for_in idx" "toLowerCase name"]
  by (simp add: local_lookup_def set_for_in)

theorem local_lookup_substring_witness:
  "index_get panadol_index (toLowerCase ''Paracet'') = None
   \<and> list_all (\<lambda>p. d_synonyms (snd p) \<noteq> SynNonArray) panadol_index
   \<and> local_lookup panadol_index ''Paracet'' = Inr (Some panadol)
   \<and> find (entry_matches (toLowerCase ''Paracet'')) (for_in panadol_index) = Some (''panadol'', panadol)"
proof -
  have a: "index_get panadol_index (toLowerCase ''Paracet'') = None"
    by code_simp
  have b: "\<forall>p \<in> set panadol_index. d_synonyms (snd p) \<noteq> SynNonArray"
    by (simp add: panadol_index_eq panadol_def)
  have c: "find (entry_matches (toLowerCase ''Paracet'')) (for_in panadol_index) = Some (''panadol'', panadol)"
    by code_simp
  show ?thesis
    using local_lookup_substring [OF a b] a b c by (simp add: list_all_iff)
qed

lemma resolve_paracet:
  "resolve example_parse panadol_index online ''paracet'' =
     Inr (Some \<lparr>m_name = ''Panadol'', m_manufacturer = ''Unknown'',
                m_batch = [], m_expiry = [], m_uses_local = [], m_adrs_local = [],
                m_uses_official = [], m_adrs_reported = [], m_dosage_official = [],
                m_maxDoseMg = Some 4000\<rparr>, [])"
  by code_simp

section \<open>Properties of the fallback and the merge\<close>

lemma fetchAndRenderDrug_cases:
  assumes "fetchAndRenderDrug idx e parsed = Inr (Some m, reqs)"
  obtains l where "local_lookup idx (trim (c_name parsed)) = Inr l"
    and "trim (c_name parsed) \<noteq> []"
    and "fallback e (trim (c_name parsed)) l =
           ((m_uses_official m, m_adrs_reported m,
             snd (snd (fst (fallback e (trim (c_name parsed)) l)))), reqs)"
    and "m = merge parsed (trim (c_name parsed)) l (m_uses_official m) (m_adrs_reported m)
               (snd (snd (fst (fallback e (trim (c_name parsed)) l))))"
proof -
  from assms have ne: "trim (c_name parsed) \<noteq> []"
    by (auto simp: fetchAndRenderDrug_def Let_def split: if_splits)
  from assms ne obtain l where l: "local_lookup idx (trim (c_name parsed)) = Inr l"
    by (cases "local_lookup idx (trim (c_name parsed))")
       (auto simp: fetchAndRenderDrug_def Let_def)
  obtain u a dz rq where f: "fallback e (trim (c_name parsed)) l = ((u, a, dz), rq)"
    by (metis prod.exhaust)
  from assms ne l f have m: "m = merge parsed (trim (c_name parsed)) l u a dz" and r: "reqs = rq"
    by (simp_all add: fetchAndRenderDrug_def Let_def)
  have "m_uses_official m = u" "m_adrs_reported m = a"
    by (simp_all add: m merge_def)
  with that [OF l ne] f m r show thesis
    by simp
qed

text \<open>
  C5. The two fallback queries are made exactly when the lookup returned no record; when
  it returned one, no request is made and the merged record has empty \<open>uses_official\<close>
  and \<open>adrs_reported\<close>, whatever the network would have answered.
\<close>

theorem fallback_only_without_local_match:
  assumes "fetchAndRenderDrug idx e parsed = Inr (Some m, reqs)"
  shows "\<exists>l. local_lookup idx (trim (c_name parsed)) = Inr l
           \<and> (reqs \<noteq> [] \<longleftrightarrow> l = None)
           \<and> (l \<noteq> None \<longrightarrow> m_uses_official m = [] \<and> m_adrs_reported m = [])"
proof -
  from assms obtain l where l: "local_lookup idx (trim (c_name parsed)) = Inr l"
    and f: "fallback e (trim (c_name parsed)) l =
           ((m_uses_official m, m_adrs_reported m,
             snd (snd (fst (fallback e (trim (c_name parsed)) l)))), reqs)"
    by (rule fetchAndRenderDrug_cases)
  from f have "(reqs \<noteq> [] \<longleftrightarrow> l = None)
      \<and> (l \<noteq> None \<longrightarrow> m_uses_official m = [] \<and> m_adrs_reported m = [])"
    by (cases l) (auto simp: fallback_def Let_def split: prod.splits)
  with l show ?thesis by blast
qed

theorem fallback_only_without_local_match_witness:
  "fetchAndRenderDrug panadol_index online \<lparr>c_name = ''Paracet'', c_batch = [], c_expiry = []\<rparr> =
     Inr (Some \<lparr>m_name = ''Panadol'', m_manufacturer = ''Unknown'',
                m_batch = [], m_expiry = [], m_uses_local = [], m_adrs_local = [],
                m_uses_official = [], m_adrs_reported = [], m_dosage_official = [],
                m_maxDoseMg = Some 4000\<rparr>, [])
   \<and> local_lookup panadol_index (trim ''Paracet'') = Inr (Some panadol)"
proof -
  have a: "fetchAndRenderDrug panadol_index online \<lparr>c_name = ''Paracet'', c_batch = [], c_expiry = []\<rparr> =
     Inr (Some \<lparr>m_name = ''Panadol'', m_manufacturer = ''Unknown'',
                m_batch = [], m_expiry = [], m_uses_local = [], m_adrs_local = [],
                m_uses_official = [], m_adrs_reported = [], m_dosage_official = [],
                m_maxDoseMg = Some 4000\<rparr>, [])"
    by code_simp
  have b: "local_lookup panadol_index (trim ''Paracet'') = Inr (Some panadol)"
    by code_simp
  from fallback_only_without_local_match [OF a] a b show ?thesis
    by simp
qed

lemma fallback_queries_without_local_match:
  "fetchAndRenderDrug [] online \<lparr>c_name = ''Amoxicillin'', c_batch = [], c_expiry = []\<rparr> =
     Inr (Some \<lparr>m_name = ''Amoxicillin'', m_manufacturer = ''Unknown'',
                m_batch = [], m_expiry = [], m_uses_local = [], m_adrs_local = [],
                m_uses_official = [''Pain relief''], m_adrs_reported = [''NAUSEA''],
                m_dosage_official = ''One tablet'', m_maxDoseMg = None\<rparr>,
          [LabelRequest ''Amoxicillin'', EventRequest ''Amoxicillin''])"
  by code_simp

text \<open>
  C3, as stated: the name of the merged record is the name of the local match, else the
  name of the candidate. A payload may decode to a name with white space around it;
  the merged record then has the trimmed name, not the candidate's.
\<close>

theorem merged_name_counterexample:
  \<open>c_name (parsePayload example_parse ''{"name":" Aspirin "}'') = '' Aspirin ''
   \<and> resolve example_parse [] offline ''{"name":" Aspirin "}'' =
       Inr (Some \<lparr>m_name = ''Aspirin'', m_manufacturer = ''Unknown'',
                  m_batch = [], m_expiry = [], m_uses_local = [], m_adrs_local = [],
                  m_uses_official = [], m_adrs_reported = [], m_dosage_official = [],
                  m_maxDoseMg = None\<rparr>,
            [LabelRequest ''Aspirin'', EventRequest ''Aspirin''])\<close>
  by code_simp

text \<open>
  C3, amended. The merge is a function of the candidate, its trimmed name, the optional
  local match and the fallback values, and its fields obey the precedence: name is the
  local name, else the given name; manufacturer the local one, else \<open>Unknown\<close>; batch and
  expiry the candidate's, else the local ones, else empty; dosage the local one, else
  the fallback's, else empty; the maximum dose the local one when it is present and not
  zero, else absent. In \<open>fetchAndRenderDrug\<close> the name given to the merge is the
  candidate's name with the white space at both ends removed, and with a local match the
  fallback values are all empty, so that no local value is overridden.
\<close>

theorem merge_precedence:
  "m_name (merge parsed name l u a dz) =
      (case l of Some d \<Rightarrow> if d_name d \<noteq> [] then d_name d else name | None \<Rightarrow> name)
   \<and> m_manufacturer (merge parsed name l u a dz) =
      (case l of Some d \<Rightarrow> if d_manufacturer d \<noteq> [] then d_manufacturer d else ''Unknown''
               | None \<Rightarrow> ''Unknown'')
   \<and> m_batch (merge parsed name l u a dz) =
      (if c_batch parsed \<noteq> [] then c_batch parsed
       else case l of Some d \<Rightarrow> d_batch d | None \<Rightarrow> [])
   \<and> m_expiry (merge parsed name l u a dz) =
      (if c_expiry parsed \<noteq> [] then c_expiry parsed
       else case l of Some d \<Rightarrow> d_expiry d | None \<Rightarrow> [])
   \<and> m_dosage_official (merge parsed name l u a dz) =
      (case l of Some d \<Rightarrow> if d_dosage d \<noteq> [] then d_dosage d else dz | None \<Rightarrow> dz)
   \<and> m_maxDoseMg (merge parsed name l u a dz) =
      (case l of
         Some d \<Rightarrow> (case d_maxDoseMg d of Some q \<Rightarrow> if q = 0 then None else Some q | None \<Rightarrow> None)
       | None \<Rightarrow> None)
   \<and> (fetchAndRenderDrug idx e parsed = Inr (Some m, reqs) \<longrightarrow>
        (\<exists>l' u' a' dz'. local_lookup idx (trim (c_name parsed)) = Inr l'
           \<and> m = merge parsed (trim (c_name parsed)) l' u' a' dz'
           \<and> (l' \<noteq> None \<longrightarrow> u' = [] \<and> a' = [] \<and> dz' = [])))"
proof -
  have "\<exists>l' u' a' dz'. local_lookup idx (trim (c_name parsed)) = Inr l'
           \<and> m = merge parsed (trim (c_name parsed)) l' u' a' dz'
           \<and> (l' \<noteq> None \<longrightarrow> u' = [] \<and> a' = [] \<and> dz' = [])"
    if "fetchAndRenderDrug idx e parsed = Inr (Some m, reqs)"
  proof -
    from that obtain l' where l: "local_lookup idx (trim (c_name parsed)) = Inr l'"
      and f: "fallback e (trim (c_name parsed)) l' =
           ((m_uses_official m, m_adrs_reported m,
             snd (snd (fst (fallback e (trim (c_name parsed)) l')))), reqs)"
      and m: "m = merge parsed (trim (c_name parsed)) l' (m_uses_official m) (m_adrs_reported m)
               (snd (snd (fst (fallback e (trim (c_name parsed)) l'))))"
      by (rule fetchAndRenderDrug_cases)
    have "l' \<noteq> None \<longrightarrow> m_uses_official m = [] \<and> m_adrs_reported m = []
            \<and> snd (snd (fst (fallback e (trim (c_name parsed)) l'))) = []"
      using f by (cases l') (auto simp: fallback_def)
    with l m show ?thesis by blast
  qed
  moreover have "m_name (merge parsed name l u a dz) =
      (case l of Some d \<Rightarrow> if d_name d \<noteq> [] then d_name d else name | None \<Rightarrow> name)"
    by (simp add: merge_def or_else_def opt_field_def split: option.splits)
  moreover have "m_manufacturer (merge parsed name l u a dz) =
      (case l of Some d \<Rightarrow> if d_manufacturer d \<noteq> [] then d_manufacturer d else ''Unknown''
               | None \<Rightarrow> ''Unknown'')"
    by (simp add: merge_def or_else_def opt_field_def split: option.splits)
  moreover have "m_batch (merge parsed name l u a dz) =
      (if c_batch parsed \<noteq> [] then c_batch parsed
       else case l of Some d \<Rightarrow> d_batch d | None \<Rightarrow> [])"
    by (simp add: merge_def or_else_def opt_field_def split: option.splits)
  moreover have "m_expiry (merge parsed name l u a dz) =
      (if c_expiry parsed \<noteq> [] then c_expiry parsed
       else case l of Some d \<Rightarrow> d_expiry d | None \<Rightarrow> [])"
    by (simp add: merge_def or_else_def opt_field_def split: option.splits)
  moreover have "m_dosage_official (merge parsed name l u a dz) =
      (case l of Some d \<Rightarrow> if d_dosage d \<noteq> [] then d_dosage d else dz | None \<Rightarrow> dz)"
    by (simp add: merge_def or_else_def opt_field_def split: option.splits)
  moreover have "m_maxDoseMg (merge parsed name l u a dz) =
      (case l of
         Some d \<Rightarrow> (case d_maxDoseMg d of Some q \<Rightarrow> if q = 0 then None else Some q | None \<Rightarrow> None)
       | None \<Rightarrow> None)"
    by (simp add: merge_def num_or_null_def split: option.splits)
  ultimately show ?thesis by blast
qed

theorem merge_precedence_witness:
  "fetchAndRenderDrug panadol_index online padded_candidate = Inr (Some padded_merged, [])
   \<and> (\<exists>l' u' a' dz'. local_lookup panadol_index (trim (c_name padded_candidate)) = Inr l'
         \<and> padded_merged = merge padded_candidate (trim (c_name padded_candidate)) l' u' a' dz'
         \<and> (l' \<noteq> None \<longrightarrow> u' = [] \<and> a' = [] \<and> dz' = []))"
proof -
  have a: "fetchAndRenderDrug panadol_index online padded_candidate = Inr (Some padded_merged, [])"
    by code_simp
  note b = merge_precedence [where idx = panadol_index and e = online and parsed = padded_candidate,
      THEN conjunct2, THEN conjunct2, THEN conjunct2, THEN conjunct2, THEN conjunct2,
      THEN conjunct2, THEN mp, OF a]
  show ?thesis
    by (rule conjI [OF a b])
qed

section \<open>Failures in the resolution\<close>

lemma loadDrapLocal_failure:
  "loadDrapLocal FetchRejected = [] \<and> loadDrapLocal NotOk = [] \<and> loadDrapLocal Malformed = []"
  by (simp add: loadDrapLocal_def)

lemma fallback_failure_is_local:
  "fst (fallback e name None) =
     (case label_query e name of None \<Rightarrow> [] | Some r \<Rightarrow> fst r,
      case event_query e name of None \<Rightarrow> [] | Some a \<Rightarrow> a,
      case label_query e name of None \<Rightarrow> [] | Some r \<Rightarrow> snd r)"
  by (simp add: fallback_def split: option.splits prod.splits)

lemma local_lookup_total:
  assumes "\<forall>p \<in> set idx. d_synonyms (snd p) \<noteq> SynNonArray"
  shows "\<exists>l. local_lookup idx name = Inr l"
proof (cases "index_get idx (toLowerCase name)")
  case None
  with assms show ?thesis
    using scan_index_find [of "for_in idx" "toLowerCase name"]
    by (simp add: local_lookup_def set_for_in)
next
  case (Some d)
  then show ?thesis by (simp add: local_lookup_def)
qed

lemma fetchAndRenderDrug_returns:
  assumes "\<forall>p \<in> set idx. d_synonyms (snd p) \<noteq> SynNonArray"
  shows "\<exists>r. fetchAndRenderDrug idx e parsed = Inr r"
proof -
  from local_lookup_total [OF assms] obtain l
    where "local_lookup idx (trim (c_name parsed)) = Inr l" by blast
  then show ?thesis
    by (simp add: fetchAndRenderDrug_def Let_def split: prod.splits)
qed

lemma resolve_empty_dataset:
  "resolve example_parse [] e ''Amoxicillin'' =
     Inr (Some \<lparr>m_name = ''Amoxicillin'', m_manufacturer = ''Unknown'',
                m_batch = [], m_expiry = [], m_uses_local = [], m_adrs_local = [],
                m_uses_official = (case label_query e ''Amoxicillin'' of None \<Rightarrow> [] | Some r \<Rightarrow> fst r),
                m_adrs_reported = (case event_query e ''Amoxicillin'' of None \<Rightarrow> [] | Some a \<Rightarrow> a),
                m_dosage_official = (case label_query e ''Amoxicillin'' of None \<Rightarrow> [] | Some r \<Rightarrow> snd r),
                m_maxDoseMg = None\<rparr>,
          [LabelRequest ''Amoxicillin'', EventRequest ''Amoxicillin''])"
proof -
  have p: "parsePayload example_parse ''Amoxicillin'' =
      \<lparr>c_name = ''Amoxicillin'', c_batch = [], c_expiry = []\<rparr>"
    by code_simp
  have t: "trim ''Amoxicillin'' = ''Amoxicillin''"
    by code_simp
  have l: "local_lookup [] ''Amoxicillin'' = Inr None"
    by code_simp
  show ?thesis
    by (simp add: resolve_def fetchAndRenderDrug_def p t l fallback_def merge_def or_else_def
        opt_field_def Let_def split: option.splits prod.splits)
qed

text \<open>
  C9. The loader skips the synonyms of a record unless they are an array, and indexes the
  record under its name. The lookup loop calls \<open>join\<close> on any truthy synonyms: with
  the dataset \<open>[{"name":"Aspirin","synonyms":"asa"}]\<close> and a name that the key does not
  contain, the resolution ends with an uncaught TypeError.
\<close>

theorem resolve_throws_on_string_synonyms:
  "loadDrapLocal (Loaded [aspirin_string_synonyms]) = [(''aspirin'', aspirin_string_synonyms)]
   \<and> resolve example_parse (loadDrapLocal (Loaded [aspirin_string_synonyms])) offline ''zzz''
       = Inl TypeError"
  by code_simp

section \<open>Properties of the dose check\<close>

text \<open>
  C2, as stated: the flag is false whenever the amount is not positive. The guard of the
  handler tests that the amount is truthy, which a negative amount is; against a record
  whose maximum is \<open>-10\<close>, the amount \<open>-5\<close> is flagged.
\<close>

theorem highDose_negative_counterexample:
  "loadDrapLocal (Loaded [negative_max]) = [(''x'', negative_max)]
   \<and> d_maxDoseMg negative_max = Some (- 10)
   \<and> highDose (loadDrapLocal (Loaded [negative_max])) ''X'' (Num (- 5)) = True"
  by code_simp

text \<open>
  C2, amended. The drug name is lowercased and looked up as a key of the index, with no
  substring matching. The flag is \<open>amountMg > maxDoseMg\<close> exactly when the key is found,
  the record found has a maximum that is present and not zero, and the amount is a
  number other than zero and \<open>NaN\<close> (an infinity included); it is false in every other
  case. When the maximum of the record found is not negative, the flag is false for
  every amount \<open>\<le> 0\<close>.
\<close>

theorem highDose_rule:
  "(highDose idx drug amt \<longleftrightarrow>
      (\<exists>l mx. index_get idx (toLowerCase drug) = Some l \<and> d_maxDoseMg l = Some mx \<and> mx \<noteq> 0
         \<and> ((\<exists>q. amt = Num q \<and> q \<noteq> 0 \<and> mx < q) \<or> amt = PosInf)))
   \<and> ((\<forall>l mx. index_get idx (toLowerCase drug) = Some l \<longrightarrow> d_maxDoseMg l = Some mx \<longrightarrow> 0 \<le> mx)
        \<longrightarrow> (\<forall>q. amt = Num q \<longrightarrow> q \<le> 0 \<longrightarrow> \<not> highDose idx drug amt)
            \<and> (amt = NegInf \<longrightarrow> \<not> highDose idx drug amt))"
proof -
  have iff: "highDose idx drug amt \<longleftrightarrow>
      (\<exists>l mx. index_get idx (toLowerCase drug) = Some l \<and> d_maxDoseMg l = Some mx \<and> mx \<noteq> 0
         \<and> ((\<exists>q. amt = Num q \<and> q \<noteq> 0 \<and> mx < q) \<or> amt = PosInf))"
    by (cases amt)
       (auto simp: highDose_def num_or_null_def truthy_num_def gt_num_def
             split: option.splits if_splits)
  have "\<not> highDose idx drug amt"
    if "\<forall>l mx. index_get idx (toLowerCase drug) = Some l \<longrightarrow> d_maxDoseMg l = Some mx \<longrightarrow> 0 \<le> mx"
      and "amt = Num q" and "q \<le> 0" for q
  proof
    assume "highDose idx drug amt"
    with iff that(2) obtain l mx where "index_get idx (toLowerCase drug) = Some l"
      and "d_maxDoseMg l = Some mx" and "mx < q"
      by auto
    with that show False by fastforce
  qed
  moreover have "\<not> highDose idx drug amt" if "amt = NegInf"
    using iff that by simp
  ultimately show ?thesis using iff by blast
qed

theorem highDose_rule_witness:
  "index_get panadol_index (toLowerCase ''Panadol'') = Some panadol
   \<and> d_maxDoseMg panadol = Some 4000
   \<and> highDose panadol_index ''Panadol'' (Num 5000)
   \<and> \<not> highDose panadol_index ''Panadol'' (Num 3000)
   \<and> \<not> highDose panadol_index ''Panadol'' (Num (- 5))
   \<and> \<not> highDose panadol_index ''Panadol'' NegInf
   \<and> highDose panadol_index ''Panadol'' PosInf
   \<and> \<not> highDose panadol_index ''Panadol'' NaN
   \<and> \<not> highDose panadol_index ''Paracet'' (Num 5000)
   \<and> local_lookup panadol_index ''Paracet'' = Inr (Some panadol)"
proof -
  have g: "index_get panadol_index (toLowerCase ''Panadol'') = Some panadol"
    by code_simp
  have m: "d_maxDoseMg panadol = Some 4000"
    by (simp add: panadol_def no_fields_def)
  have h: "\<forall>l mx. index_get panadol_index (toLowerCase ''Panadol'') = Some l
      \<longrightarrow> d_maxDoseMg l = Some mx \<longrightarrow> 0 \<le> mx"
    by (simp add: g m)
  have a: "highDose panadol_index ''Panadol'' (Num 5000)" by code_simp
  have b: "\<not> highDose panadol_index ''Panadol'' (Num 3000)" by code_simp
  have c: "\<not> highDose panadol_index ''Panadol'' NaN" by code_simp
  have d: "\<not> highDose panadol_index ''Paracet'' (Num 5000)" by code_simp
  have e: "local_lookup panadol_index ''Paracet'' = Inr (Some panadol)" by code_simp
  have f: "highDose panadol_index ''Panadol'' PosInf" by code_simp
  from highDose_rule [of panadol_index "''Panadol''" "Num (- 5)", THEN conjunct2, THEN mp, OF h]
  have n5: "\<not> highDose panadol_index ''Panadol'' (Num (- 5))" by simp
  from highDose_rule [of panadol_index "''Panadol''" NegInf, THEN conjunct2, THEN mp, OF h]
  have ni: "\<not> highDose panadol_index ''Panadol'' NegInf" by simp
  from g m a b n5 ni f c d e show ?thesis by blast
qed

section \<open>Properties of the report submission\<close>

lemma set_replaceAll:
  "set (replaceAll x r s) = (set s - {x}) \<union> (if x \<in> set s then set r else {})"
  by (induction s) (auto simp: replaceAll_def)

lemma escapeHtml_no_markup:
  "CHR ''<'' \<notin> set (escapeHtml s) \<and> CHR ''>'' \<notin> set (escapeHtml s)"
  by (auto simp: escapeHtml_def set_replaceAll split: if_splits)

lemma find_class_list_append:
  "find_class_list c (xs @ ys) =
     (case find_class_list c xs of Some el \<Rightarrow> Some el | None \<Rightarrow> find_class_list c ys)"
  by (induction xs) (simp_all split: option.splits)

lemma find_class_list_li: "find_class_list c (map li xs) = None"
  by (induction xs) (simp_all add: li_def)

lemma find_class_section_list:
  "c \<noteq> ''section'' \<Longrightarrow> find_class_list c (section_list t xs) = None"
  by (simp add: section_list_def find_class_list_li)

lemma renderDrug_no_title: "find_class_list ''drug-title'' (renderDrug d) = None"
  by (simp add: renderDrug_def Let_def find_class_list_append find_class_section_list)

lemma renderQuickCard_no_title: "find_class_list ''drug-title'' (renderQuickCard idx parsed) = None"
  by (simp add: renderQuickCard_def split: option.splits)

lemma no_name_card_no_title: "find_class_list ''drug-title'' no_name_card = None"
  by (simp add: no_name_card_def)

lemma handleScanned_card:
  assumes "handleScanned json_parse e raw st = (st1, err)"
  shows "drug_title (drugCard st1) = []"
    and "lastParsed st1 = parsePayload json_parse raw"
    and "drapIndex st1 = drapIndex st"
    and "storage st1 = storage st"
  using assms
  by (auto simp: handleScanned_def Let_def drug_title_def renderDrug_no_title
      renderQuickCard_no_title no_name_card_no_title split: sum.splits prod.splits option.splits)

lemma handleScanned_as_events:
  "fst (handleScanned json_parse e raw st) =
     (case fetchAndRenderDrug (drapIndex st) e (parsePayload json_parse raw) of
        Inl err \<Rightarrow> run json_parse st [ScanStarted raw]
      | Inr (mo, reqs) \<Rightarrow> run json_parse st [ScanStarted raw, CardWritten mo])"
  by (simp add: handleScanned_def run_def step_def Let_def
      split: sum.splits prod.splits option.splits)

lemma report_drug_after_scan:
  assumes "handleScanned json_parse e raw st = (st1, err)"
    and "submit st1 f c = (st2, Saved r)"
  shows "r_drug r = (if c_name (parsePayload json_parse raw) \<noteq> []
                     then c_name (parsePayload json_parse raw) else ''Unknown'')"
proof -
  note h = handleScanned_card [OF assms(1)]
  from assms(2) have "r_drug r =
      or_else (drug_title (drugCard st1)) (or_else (c_name (lastParsed st1)) ''Unknown'')"
    by (auto simp: submit_def Let_def split: if_splits)
  then show ?thesis
    by (simp add: h or_else_def)
qed

lemma submit_keeps_card:
  "drugCard (fst (submit st f c)) = drugCard st \<and> lastParsed (fst (submit st f c)) = lastParsed st
   \<and> drapIndex (fst (submit st f c)) = drapIndex st"
  by (simp add: submit_def Let_def)

lemma step_title:
  assumes "drug_title (drugCard st) = []"
  shows "drug_title (drugCard (step json_parse st ev)) = []"
proof (cases ev)
  case (CardWritten mo)
  then show ?thesis
    by (cases mo)
       (simp_all add: step_def drug_title_def renderDrug_no_title no_name_card_no_title)
next
  case (ScanStarted raw)
  then show ?thesis
    by (simp add: step_def drug_title_def renderQuickCard_no_title)
next
  case (DatasetLoaded resp)
  with assms show ?thesis by (simp add: step_def)
next
  case (Submitted f c)
  with assms show ?thesis by (simp add: step_def submit_keeps_card)
next
  case Cleared
  with assms show ?thesis by (simp add: step_def clearAll_def)
qed

lemma step_lastParsed:
  "lastParsed (step json_parse st ev) =
     (case ev of ScanStarted raw \<Rightarrow> parsePayload json_parse raw | _ \<Rightarrow> lastParsed st)"
proof (cases ev)
  case (CardWritten mo)
  then show ?thesis
    by (cases mo) (simp_all add: step_def)
qed (simp_all add: step_def submit_keeps_card clearAll_def)

lemma run_invariant:
  "drug_title (drugCard (run json_parse (initial_page stored) evs)) = []
   \<and> lastParsed (run json_parse (initial_page stored) evs) =
       (case last_scanned evs of None \<Rightarrow> empty_candidate | Some raw \<Rightarrow> parsePayload json_parse raw)"
proof (induction evs rule: rev_induct)
  case Nil
  show ?case
    by (simp add: run_def last_scanned_def initial_page_def static_card_def drug_title_def)
next
  case (snoc ev evs)
  have r: "run json_parse (initial_page stored) (evs @ [ev]) =
      step json_parse (run json_parse (initial_page stored) evs) ev"
    by (simp add: run_def)
  have l: "last_scanned (evs @ [ev]) =
      (case ev of ScanStarted raw \<Rightarrow> Some raw | _ \<Rightarrow> last_scanned evs)"
    by (cases ev) (simp_all add: last_scanned_def)
  from snoc have t: "drug_title (drugCard (run json_parse (initial_page stored) evs)) = []"
    and lp: "lastParsed (run json_parse (initial_page stored) evs) =
       (case last_scanned evs of None \<Rightarrow> empty_candidate | Some raw \<Rightarrow> parsePayload json_parse raw)"
    by simp_all
  have "drug_title (drugCard (run json_parse (initial_page stored) (evs @ [ev]))) = []"
    by (simp only: r step_title [OF t])
  moreover have "lastParsed (run json_parse (initial_page stored) (evs @ [ev])) =
       (case last_scanned (evs @ [ev]) of
          None \<Rightarrow> empty_candidate | Some raw \<Rightarrow> parsePayload json_parse raw)"
    unfolding r l step_lastParsed by (cases ev) (simp_all add: lp)
  ultimately show ?case by simp
qed

lemma submit_saved:
  assumes "submit st f c = (st2, Saved r)"
  shows "r_drug r = or_else (drug_title (drugCard st)) (or_else (c_name (lastParsed st)) ''Unknown'')"
    and "r_amountMg r = Number_or_0 (p_amount_mg f)"
    and "r_highDose r = highDose (drapIndex st) (r_drug r) (Number_or_0 (p_amount_mg f))"
    and "storage st2 = Some (map json_roundtrip (readAllReports st @ [r]))"
  using assms by (auto simp: submit_def Let_def split: if_splits)

text \<open>
  C4. No element of a card written by \<open>renderQuickCard\<close>, \<open>renderDrug\<close> or the empty-name
  branch has the class \<open>drug-title\<close>. So for every report submission, whatever happened
  on the page before it, the report that is stored has as its drug the name of the
  candidate parsed last, or \<open>Unknown\<close> when that name is empty or nothing was parsed yet,
  and its high-dose flag is the dose check keyed on this name, whatever the name of a
  merged record was.
\<close>

theorem stored_report_drug_is_parsed_name:
  assumes "submit (run json_parse (initial_page stored) evs) f c = (st2, Saved r)"
  shows "readAllReports st2 \<noteq> []
         \<and> last (readAllReports st2) = json_roundtrip r
         \<and> r_drug (last (readAllReports st2)) =
             (case last_scanned evs of
                None \<Rightarrow> ''Unknown''
              | Some raw \<Rightarrow> if c_name (parsePayload json_parse raw) \<noteq> []
                            then c_name (parsePayload json_parse raw) else ''Unknown'')
         \<and> r_highDose (last (readAllReports st2)) =
             highDose (drapIndex (run json_parse (initial_page stored) evs))
               (r_drug (last (readAllReports st2))) (Number_or_0 (p_amount_mg f))"
proof -
  note inv = run_invariant [of json_parse stored evs]
  note sv = submit_saved [OF assms]
  from sv(4) have rd: "readAllReports st2 \<noteq> []" and lst: "last (readAllReports st2) = json_roundtrip r"
    by (simp_all add: readAllReports_def [of st2])
  have d: "r_drug (json_roundtrip r) = r_drug r" and h: "r_highDose (json_roundtrip r) = r_highDose r"
    by (simp_all add: json_roundtrip_def)
  have "r_drug r =
      (case last_scanned evs of
         None \<Rightarrow> ''Unknown''
       | Some raw \<Rightarrow> if c_name (parsePayload json_parse raw) \<noteq> []
                     then c_name (parsePayload json_parse raw) else ''Unknown'')"
    using sv(1) inv by (simp add: or_else_def empty_candidate_def split: option.splits)
  with rd lst d h sv(3) show ?thesis
    by simp
qed

theorem stored_report_drug_is_parsed_name_witness:
  "snd (submit (run example_parse (initial_page None) paracet_events) patient_form noon)
     = Saved paracet_report
   \<and> last_scanned paracet_events = Some ''paracet''
   \<and> c_name (parsePayload example_parse ''paracet'') = ''paracet''
   \<and> readAllReports (fst (submit (run example_parse (initial_page None) paracet_events) patient_form noon))
       = [paracet_report]
   \<and> r_drug paracet_report = ''paracet''
   \<and> r_highDose paracet_report = False
   \<and> m_name padded_merged = ''Panadol''
   \<and> highDose panadol_index ''paracet'' (Num 5000) = False
   \<and> highDose panadol_index ''Panadol'' (Num 5000) = True"
proof -
  have s: "snd (submit (run example_parse (initial_page None) paracet_events) patient_form noon)
     = Saved paracet_report"
    by code_simp
  have b: "submit (run example_parse (initial_page None) paracet_events) patient_form noon =
      (fst (submit (run example_parse (initial_page None) paracet_events) patient_form noon),
       Saved paracet_report)"
    by (metis s prod.collapse)
  have l: "last_scanned paracet_events = Some ''paracet''"
    by code_simp
  have p: "c_name (parsePayload example_parse ''paracet'') = ''paracet''"
    by code_simp
  have rd: "readAllReports (fst (submit (run example_parse (initial_page None) paracet_events) patient_form noon))
       = [paracet_report]"
    by code_simp
  have d: "highDose panadol_index ''paracet'' (Num 5000) = False"
    by code_simp
  have d': "highDose panadol_index ''Panadol'' (Num 5000) = True"
    by code_simp
  have m: "m_name padded_merged = ''Panadol''"
    by (simp add: padded_merged_def)
  have q: "r_drug paracet_report = ''paracet''" "r_highDose paracet_report = False"
    by (simp_all add: paracet_report_def)
  from stored_report_drug_is_parsed_name [OF b] s l p rd d d' m q show ?thesis
    by simp
qed

text \<open>
  C10. When one of the six required fields is empty after trimming, the handler returns
  after the alert: the result is a validation failure and the state, with the stored
  reports in it, is the one before the submission.
\<close>

theorem submit_rejects_missing_field:
  assumes "trim (p_name f) = [] \<or> trim (p_age f) = [] \<or> trim (p_gender f) = []
           \<or> trim (p_condition f) = [] \<or> trim (p_severity f) = [] \<or> trim (p_desc f) = []"
  shows "submit st f c = (st, ValidationFailed)
         \<and> readAllReports (fst (submit st f c)) = readAllReports st"
proof -
  from assms have "submit st f c = (st, ValidationFailed)"
    by (simp add: submit_def Let_def)
  then show ?thesis by simp
qed

theorem submit_rejects_missing_field_witness:
  "trim (p_name blank_name_form) = []
   \<and> submit start_page blank_name_form noon = (start_page, ValidationFailed)
   \<and> readAllReports (fst (submit start_page blank_name_form noon)) = readAllReports start_page"
proof -
  have a: "trim (p_name blank_name_form) = []"
    by code_simp
  then have "trim (p_name blank_name_form) = [] \<or> trim (p_age blank_name_form) = []
           \<or> trim (p_gender blank_name_form) = [] \<or> trim (p_condition blank_name_form) = []
           \<or> trim (p_severity blank_name_form) = [] \<or> trim (p_desc blank_name_form) = []"
    by simp
  from submit_rejects_missing_field [OF this] a show ?thesis
    by simp
qed

lemma submit_saves_complete_form:
  assumes "trim (p_name f) \<noteq> []" "trim (p_age f) \<noteq> []" "trim (p_gender f) \<noteq> []"
    "trim (p_condition f) \<noteq> []" "trim (p_severity f) \<noteq> []" "trim (p_desc f) \<noteq> []"
  shows "\<exists>st' r. submit st f c = (st', Saved r)"
  using assms by (simp add: submit_def Let_def)


lemma infinity_amount_is_flagged_and_stored_as_null:
  "snd (submit (fst (handleScanned example_parse online ''Panadol'' start_page)) infinity_form noon)
     = Saved infinity_report
   \<and> readAllReports
        (fst (submit (fst (handleScanned example_parse online ''Panadol'' start_page)) infinity_form noon))
      = [infinity_report\<lparr>r_amountMg := Null\<rparr>]"
  by code_simp



end
